theory Spec2Isabelle
  imports Main "HOL-Library.Word"
begin

section \<open>Go values\<close>

text \<open>
  Bytes and 64-bit integers are machine words. A Go slice is either nil or a sequence of
  elements; \<open>len\<close> of the nil slice is 0 and the library treats a nil slice like an
  empty one. A pointer is either nil or an address in the store.
\<close>

type_synonym byte = "8 word"
type_synonym int64 = "64 word"
type_synonym 'a slice = "'a list option"
type_synonym addr = nat
type_synonym ptr = "addr option"

definition elems :: "'a slice \<Rightarrow> 'a list" where
  "elems s = (case s of None \<Rightarrow> [] | Some xs \<Rightarrow> xs)"

definition len :: "'a slice \<Rightarrow> nat" where
  "len s = length (elems s)"

text \<open>
  An error value carries its message; \<open>Wrapf\<close> is an error made by \<open>fmt.Errorf\<close> with
  the verb \<open>%w\<close>: the text before the verb and the wrapped error.
\<close>

datatype error = Errorf string | Wrapf string error

text \<open>A call either returns its results or panics.\<close>

datatype 'a outcome = Panic string | Return 'a

section \<open>Configuration (config.go)\<close>

text \<open>\<open>time.Duration\<close> is an int64 count of nanoseconds.\<close>

type_synonym Duration = int64

definition Second :: Duration where
  "Second = 1000000000"

record requestResponse =
  name :: string
  signature :: string

record SignConfig =
  signAlg :: bool
  signCreated :: bool
  fakeCreated :: int64
  expires :: int64
  nonce :: string
  requestResponse :: "requestResponse option"

record VerifyConfig =
  verifyCreated :: bool
  notNewerThan :: Duration
  notOlderThan :: Duration
  allowedAlgs :: "string slice"
  rejectExpired :: bool
  requestResponse :: "requestResponse option"
  verifyKeyID :: bool
  dateWithin :: Duration

text \<open>
  Configurations are handled through pointers and updated in place, so they live in a
  store: a \<open>*SignConfig\<close> is an index into \<open>signConfigs\<close>, a \<open>*VerifyConfig\<close> an
  index into \<open>verifyConfigs\<close>. Allocation appends a cell.
\<close>

record heap =
  signConfigs :: "SignConfig list"
  verifyConfigs :: "VerifyConfig list"

definition getSignConfig :: "heap \<Rightarrow> ptr \<Rightarrow> SignConfig option" where
  "getSignConfig h p =
     (case p of
        None \<Rightarrow> None
      | Some a \<Rightarrow> if a < length (signConfigs h) then Some (signConfigs h ! a) else None)"

definition getVerifyConfig :: "heap \<Rightarrow> ptr \<Rightarrow> VerifyConfig option" where
  "getVerifyConfig h p =
     (case p of
        None \<Rightarrow> None
      | Some a \<Rightarrow> if a < length (verifyConfigs h) then Some (verifyConfigs h ! a) else None)"

definition NewSignConfig :: "heap \<Rightarrow> ptr \<times> heap" where
  "NewSignConfig h =
     (Some (length (signConfigs h)),
      h\<lparr>signConfigs := signConfigs h @
           [\<lparr>signAlg = True,
             signCreated = True,
             fakeCreated = 0,
             expires = 0,
             nonce = [],
             SignConfig.requestResponse = None\<rparr>]\<rparr>)"

















definition NewVerifyConfig :: "heap \<Rightarrow> ptr \<times> heap" where
  "NewVerifyConfig h =
     (Some (length (verifyConfigs h)),
      h\<lparr>verifyConfigs := verifyConfigs h @
           [\<lparr>verifyCreated = True,
             notNewerThan = 2 * Second,
             notOlderThan = 10 * Second,
             allowedAlgs = Some [],
             rejectExpired = True,
             VerifyConfig.requestResponse = None,
             verifyKeyID = True,
             dateWithin = 0\<rparr>]\<rparr>)"

section \<open>Keys and library primitives\<close>

text \<open>
  The key of a Signer or Verifier is an \<open>interface{}\<close>: nil, or a value tagged with its
  dynamic type. The constructors store a \<open>[]byte\<close>, a \<open>*rsa.PrivateKey\<close>, a
  \<open>*rsa.PublicKey\<close>, a \<open>*ecdsa.PrivateKey\<close> or a \<open>*ecdsa.PublicKey\<close>; the typed
  pointers may themselves be nil. The key structs belong to the standard library and are
  never written by this package, so they are values: an RSA public key is its modulus and
  exponent, a private key adds the private exponent; a P-256 public key is a point, a
  private key adds the scalar.
\<close>

datatype rsa_PublicKey = rsa_PublicKey int int
datatype rsa_PrivateKey = rsa_PrivateKey rsa_PublicKey int
datatype ecdsa_PublicKey = ecdsa_PublicKey int int
datatype ecdsa_PrivateKey = ecdsa_PrivateKey ecdsa_PublicKey int

datatype key =
    nil_key
  | bytes_key "byte slice"
  | rsa_private "rsa_PrivateKey option"
  | rsa_public "rsa_PublicKey option"
  | ecdsa_private "ecdsa_PrivateKey option"
  | ecdsa_public "ecdsa_PublicKey option"
  | other_key string

datatype Hash = SHA256 | SHA512

text \<open>\<open>rand.Reader\<close>: the random bytes a call reads.\<close>

type_synonym entropy = "byte list"

text \<open>
  The primitives of the standard library (\<open>crypto/hmac\<close>, \<open>crypto/sha256\<close>,
  \<open>crypto/sha512\<close>, \<open>crypto/rsa\<close>, \<open>crypto/ecdsa\<close>) are parameters of the model.
  \<open>hmac_sha256 k m\<close> is \<open>hmac.New(sha256.New, k)\<close> written with \<open>m\<close> and summed.
  The RSA signing functions return a signature and an error, the RSA verification
  functions return an error (nil when the signature is valid). \<open>ecdsa_Sign\<close> returns
  the pair \<open>(r, s)\<close> and an error; on P-256 both scalars are below the group order and
  so fit 256 bits. \<open>ecdsa_Verify\<close> returns a boolean.
\<close>

record crypto =
  hmac_sha256 :: "byte list \<Rightarrow> byte list \<Rightarrow> byte list"
  sha256_Sum256 :: "byte list \<Rightarrow> byte list"
  sha512_Sum512 :: "byte list \<Rightarrow> byte list"
  rsa_SignPKCS1v15 :: "rsa_PrivateKey \<Rightarrow> Hash \<Rightarrow> byte list \<Rightarrow> byte slice \<times> error option"
  rsa_VerifyPKCS1v15 :: "rsa_PublicKey \<Rightarrow> Hash \<Rightarrow> byte list \<Rightarrow> byte list \<Rightarrow> error option"
  rsa_SignPSS ::
    "entropy \<Rightarrow> rsa_PrivateKey \<Rightarrow> Hash \<Rightarrow> byte list \<Rightarrow> byte slice \<times> error option"
  rsa_VerifyPSS :: "rsa_PublicKey \<Rightarrow> Hash \<Rightarrow> byte list \<Rightarrow> byte list \<Rightarrow> error option"
  ecdsa_Sign ::
    "entropy \<Rightarrow> ecdsa_PrivateKey \<Rightarrow> byte list \<Rightarrow> (256 word \<times> 256 word) \<times> error option"
  ecdsa_Verify :: "ecdsa_PublicKey \<Rightarrow> byte list \<Rightarrow> 256 word \<Rightarrow> 256 word \<Rightarrow> bool"

text \<open>\<open>bytes.Equal\<close>: same length and same bytes; a nil argument is an empty slice.\<close>

definition bytes_Equal :: "byte slice \<Rightarrow> byte slice \<Rightarrow> bool" where
  "bytes_Equal a b = (elems a = elems b)"

section \<open>Raw ECDSA signatures\<close>

text \<open>
  After \<open>math/big\<close>: \<open>FillBytes n v\<close> is the big-endian, zero-padded \<open>n\<close>-byte
  form of \<open>v\<close>, and \<open>SetBytes\<close> reads a big-endian byte string back.
\<close>

fun FillBytes :: "nat \<Rightarrow> nat \<Rightarrow> byte list" where
  "FillBytes 0 v = []"
| "FillBytes (Suc n) v = FillBytes n (v div 256) @ [of_nat (v mod 256)]"

definition SetBytes :: "byte list \<Rightarrow> nat" where
  "SetBytes bs = foldl (\<lambda>a b. a * 256 + unat b) 0 bs"

text \<open>
  Modelled from the spec: \<open>ecdsaSignRaw\<close> and \<open>ecdsaVerifyRaw\<close> are called by
  \<open>sign\<close> and \<open>verify\<close> but their bodies are not among the sources. The specification
  says: ``ECDSA signatures on the wire are the fixed-length concatenation of r and s
  (32 bytes each, big-endian, zero-padded), NOT ASN.1/DER'' and ``Implementations that
  default to DER must convert on both sign and verify''. So signing encodes the pair of
  the primitive as \<open>r || s\<close>, and verification splits a 64-byte signature into \<open>r\<close> and
  \<open>s\<close> and hands them to the primitive. The specification does not say what a signature
  of another length yields; the model rejects it with an error. Through a nil key
  pointer the call panics.
\<close>

definition ecdsaSignRaw ::
  "crypto \<Rightarrow> entropy \<Rightarrow> ecdsa_PrivateKey option \<Rightarrow> byte list
     \<Rightarrow> (byte slice \<times> error option) outcome" where
  "ecdsaSignRaw P rnd priv hash =
     (case priv of
        None \<Rightarrow> Panic ''invalid memory address or nil pointer dereference''
      | Some k \<Rightarrow>
          (case ecdsa_Sign P rnd k hash of
             (_, Some err) \<Rightarrow> Return (None, Some err)
           | ((r, s), None) \<Rightarrow>
               Return (Some (FillBytes 32 (unat r) @ FillBytes 32 (unat s)), None)))"

definition ecdsaVerifyRaw ::
  "crypto \<Rightarrow> ecdsa_PublicKey option \<Rightarrow> byte list \<Rightarrow> byte slice
     \<Rightarrow> (bool \<times> error option) outcome" where
  "ecdsaVerifyRaw P pub hash sig =
     (case pub of
        None \<Rightarrow> Panic ''invalid memory address or nil pointer dereference''
      | Some k \<Rightarrow>
          if len sig \<noteq> 64 then Return (False, Some (Errorf ''bad signature length''))
          else Return
                 (ecdsa_Verify P k hash
                    (of_nat (SetBytes (take 32 (elems sig))))
                    (of_nat (SetBytes (drop 32 (elems sig)))),
                  None))"

section \<open>Signer (crypto.go)\<close>

text \<open>
  The type \<open>Fields\<close> is declared elsewhere in the package; the constructors only store
  the value they are given, so it is a type parameter. (The field is written \<open>fields'\<close>:
  the record package reserves the plain name.)
\<close>

record 'f Signer =
  keyID :: string
  key :: key
  alg :: string
  config :: ptr
  fields' :: 'f

definition NewHMACSHA256Signer ::
  "heap \<Rightarrow> string \<Rightarrow> byte slice \<Rightarrow> ptr \<Rightarrow> 'f
     \<Rightarrow> ('f Signer option \<times> error option) \<times> heap" where
  "NewHMACSHA256Signer h kid k cfg fs =
     (if k = None \<or> len k < 64 then
        ((None, Some (Errorf ''key must be at least 64 bytes long'')), h)
      else if kid = [] then
        ((None, Some (Errorf ''keyID must not be empty'')), h)
      else
        (case (if cfg = None then NewSignConfig h else (cfg, h)) of
           (cfg', h') \<Rightarrow>
             ((Some \<lparr>keyID = kid,
                      key = bytes_key k,
                      alg = ''hmac-sha256'',
                      config = cfg',
                      fields' = fs\<rparr>, None), h')))"

definition NewRSASigner ::
  "heap \<Rightarrow> string \<Rightarrow> rsa_PrivateKey option \<Rightarrow> ptr \<Rightarrow> 'f
     \<Rightarrow> ('f Signer option \<times> error option) \<times> heap" where
  "NewRSASigner h kid k cfg fs =
     (if k = None then
        ((None, Some (Errorf ''key must not be nil'')), h)
      else if kid = [] then
        ((None, Some (Errorf ''keyID must not be empty'')), h)
      else
        (case (if cfg = None then NewSignConfig h else (cfg, h)) of
           (cfg', h') \<Rightarrow>
             ((Some \<lparr>keyID = kid,
                      key = rsa_private k,
                      alg = ''rsa-v1_5-sha256'',
                      config = cfg',
                      fields' = fs\<rparr>, None), h')))"

definition NewRSAPSSSigner ::
  "heap \<Rightarrow> string \<Rightarrow> rsa_PrivateKey option \<Rightarrow> ptr \<Rightarrow> 'f
     \<Rightarrow> ('f Signer option \<times> error option) \<times> heap" where
  "NewRSAPSSSigner h kid k cfg fs =
     (if k = None then
        ((None, Some (Errorf ''key must not be nil'')), h)
      else if kid = [] then
        ((None, Some (Errorf ''keyID must not be empty'')), h)
      else
        (case (if cfg = None then NewSignConfig h else (cfg, h)) of
           (cfg', h') \<Rightarrow>
             ((Some \<lparr>keyID = kid,
                      key = rsa_private k,
                      alg = ''rsa-pss-sha512'',
                      config = cfg',
                      fields' = fs\<rparr>, None), h')))"

definition NewP256Signer ::
  "heap \<Rightarrow> string \<Rightarrow> ecdsa_PrivateKey option \<Rightarrow> ptr \<Rightarrow> 'f
     \<Rightarrow> ('f Signer option \<times> error option) \<times> heap" where
  "NewP256Signer h kid k cfg fs =
     (if k = None then
        ((None, Some (Errorf ''key must not be nil'')), h)
      else if kid = [] then
        ((None, Some (Errorf ''keyID must not be empty'')), h)
      else
        (case (if cfg = None then NewSignConfig h else (cfg, h)) of
           (cfg', h') \<Rightarrow>
             ((Some \<lparr>keyID = kid,
                      key = ecdsa_private k,
                      alg = ''ecdsa-p256-sha256'',
                      config = cfg',
                      fields' = fs\<rparr>, None), h')))"

text \<open>
  \<open>sign\<close> has a value receiver and writes nothing: it takes the store and returns it
  with its results. A type assertion on a key of another dynamic type panics, and so
  does the library when it is handed a nil key pointer.
\<close>

definition sign ::
  "crypto \<Rightarrow> entropy \<Rightarrow> heap \<Rightarrow> 'f Signer \<Rightarrow> byte slice
     \<Rightarrow> ((byte slice \<times> error option) \<times> 'f Signer \<times> heap) outcome" where
  "sign P rnd h s buff =
     (if alg s = ''hmac-sha256'' then
        (case key s of
           bytes_key k \<Rightarrow>
             Return ((Some (hmac_sha256 P (elems k) (elems buff)), None), s, h)
         | _ \<Rightarrow> Panic ''interface conversion'')
      else if alg s = ''rsa-v1_5-sha256'' then
        (case key s of
           rsa_private (Some k) \<Rightarrow>
             (case rsa_SignPKCS1v15 P k SHA256 (sha256_Sum256 P (elems buff)) of
                (_, Some err) \<Rightarrow> Return ((None, Some (Errorf ''RSA signature failed'')), s, h)
              | (sg, None) \<Rightarrow> Return ((sg, None), s, h))
         | rsa_private None \<Rightarrow> Panic ''invalid memory address or nil pointer dereference''
         | _ \<Rightarrow> Panic ''interface conversion'')
      else if alg s = ''rsa-pss-sha512'' then
        (case key s of
           rsa_private (Some k) \<Rightarrow>
             (case rsa_SignPSS P rnd k SHA512 (sha512_Sum512 P (elems buff)) of
                (_, Some err) \<Rightarrow>
                  Return ((None, Some (Errorf ''RSA-PSS signature failed'')), s, h)
              | (sg, None) \<Rightarrow> Return ((sg, None), s, h))
         | rsa_private None \<Rightarrow> Panic ''invalid memory address or nil pointer dereference''
         | _ \<Rightarrow> Panic ''interface conversion'')
      else if alg s = ''ecdsa-p256-sha256'' then
        (case key s of
           ecdsa_private k \<Rightarrow>
             (case ecdsaSignRaw P rnd k (sha256_Sum256 P (elems buff)) of
                Panic m \<Rightarrow> Panic m
              | Return r \<Rightarrow> Return (r, s, h))
         | _ \<Rightarrow> Panic ''interface conversion'')
      else
        Return ((None, Some (Errorf (''sign: unknown algorithm '' @ [CHR 0x22] @ alg s
                                       @ [CHR 0x22]))), s, h))"

section \<open>Verifier (crypto.go)\<close>

record 'f Verifier =
  keyID :: string
  key :: key
  alg :: string
  c :: ptr
  f :: 'f

definition NewHMACSHA256Verifier ::
  "heap \<Rightarrow> string \<Rightarrow> byte slice \<Rightarrow> ptr \<Rightarrow> 'f
     \<Rightarrow> ('f Verifier option \<times> error option) \<times> heap" where
  "NewHMACSHA256Verifier h kid k cfg fs =
     (if k = None then
        ((None, Some (Errorf ''key must not be nil'')), h)
      else if len k < 64 then
        ((None, Some (Errorf ''key must be at least 64 bytes long'')), h)
      else
        (case (if cfg = None then NewVerifyConfig h else (cfg, h)) of
           (cfg', h') \<Rightarrow>
             ((Some \<lparr>keyID = kid,
                      key = bytes_key k,
                      alg = ''hmac-sha256'',
                      c = cfg',
                      f = fs\<rparr>, None), h')))"

definition NewRSAVerifier ::
  "heap \<Rightarrow> string \<Rightarrow> rsa_PublicKey option \<Rightarrow> ptr \<Rightarrow> 'f
     \<Rightarrow> ('f Verifier option \<times> error option) \<times> heap" where
  "NewRSAVerifier h kid k cfg fs =
     (if k = None then
        ((None, Some (Errorf ''key must not be nil'')), h)
      else
        (case (if cfg = None then NewVerifyConfig h else (cfg, h)) of
           (cfg', h') \<Rightarrow>
             ((Some \<lparr>keyID = kid,
                      key = rsa_public k,
                      alg = ''rsa-v1_5-sha256'',
                      c = cfg',
                      f = fs\<rparr>, None), h')))"

definition NewRSAPSSVerifier ::
  "heap \<Rightarrow> string \<Rightarrow> rsa_PublicKey option \<Rightarrow> ptr \<Rightarrow> 'f
     \<Rightarrow> ('f Verifier option \<times> error option) \<times> heap" where
  "NewRSAPSSVerifier h kid k cfg fs =
     (if k = None then
        ((None, Some (Errorf ''key must not be nil'')), h)
      else
        (case (if cfg = None then NewVerifyConfig h else (cfg, h)) of
           (cfg', h') \<Rightarrow>
             ((Some \<lparr>keyID = kid,
                      key = rsa_public k,
                      alg = ''rsa-pss-sha512'',
                      c = cfg',
                      f = fs\<rparr>, None), h')))"

definition NewP256Verifier ::
  "heap \<Rightarrow> string \<Rightarrow> ecdsa_PublicKey option \<Rightarrow> ptr \<Rightarrow> 'f
     \<Rightarrow> ('f Verifier option \<times> error option) \<times> heap" where
  "NewP256Verifier h kid k cfg fs =
     (if k = None then
        ((None, Some (Errorf ''key must not be nil'')), h)
      else
        (case (if cfg = None then NewVerifyConfig h else (cfg, h)) of
           (cfg', h') \<Rightarrow>
             ((Some \<lparr>keyID = kid,
                      key = ecdsa_public k,
                      alg = ''ecdsa-p256-sha256'',
                      c = cfg',
                      f = fs\<rparr>, None), h')))"

text \<open>\<open>verify\<close>, like \<open>sign\<close>, has a value receiver and writes nothing.\<close>

definition verify ::
  "crypto \<Rightarrow> heap \<Rightarrow> 'f Verifier \<Rightarrow> byte slice \<Rightarrow> byte slice
     \<Rightarrow> ((bool \<times> error option) \<times> 'f Verifier \<times> heap) outcome" where
  "verify P h v buff sig =
     (if alg v = ''hmac-sha256'' then
        (case key v of
           bytes_key k \<Rightarrow>
             Return
               ((bytes_Equal (Some (hmac_sha256 P (elems k) (elems buff))) sig, None), v, h)
         | _ \<Rightarrow> Panic ''interface conversion'')
      else if alg v = ''rsa-v1_5-sha256'' then
        (case key v of
           rsa_public (Some k) \<Rightarrow>
             (case rsa_VerifyPKCS1v15 P k SHA256 (sha256_Sum256 P (elems buff)) (elems sig) of
                Some err \<Rightarrow>
                  Return ((False, Some (Wrapf ''RSA verification failed: '' err)), v, h)
              | None \<Rightarrow> Return ((True, None), v, h))
         | rsa_public None \<Rightarrow> Panic ''invalid memory address or nil pointer dereference''
         | _ \<Rightarrow> Panic ''interface conversion'')
      else if alg v = ''rsa-pss-sha512'' then
        (case key v of
           rsa_public (Some k) \<Rightarrow>
             (case rsa_VerifyPSS P k SHA512 (sha512_Sum512 P (elems buff)) (elems sig) of
                Some err \<Rightarrow>
                  Return ((False, Some (Wrapf ''RSA-PSS verification failed: '' err)), v, h)
              | None \<Rightarrow> Return ((True, None), v, h))
         | rsa_public None \<Rightarrow> Panic ''invalid memory address or nil pointer dereference''
         | _ \<Rightarrow> Panic ''interface conversion'')
      else if alg v = ''ecdsa-p256-sha256'' then
        (case key v of
           ecdsa_public k \<Rightarrow>
             (case ecdsaVerifyRaw P k (sha256_Sum256 P (elems buff)) sig of
                Panic m \<Rightarrow> Panic m
              | Return r \<Rightarrow> Return (r, v, h))
         | _ \<Rightarrow> Panic ''interface conversion'')
      else
        Return ((False, Some (Errorf (''verify: unknown algorithm '' @ [CHR 0x22] @ alg v
                                        @ [CHR 0x22]))), v, h))"

text \<open>
  A stand-in for the primitives, to run the definitions on concrete inputs: the MAC is
  the key followed by the message, the hashes are the identity, an RSA signature is the
  digest itself, and the ECDSA pair is fixed.
\<close>

definition toy_crypto :: crypto where
  "toy_crypto =
     \<lparr>hmac_sha256 = (\<lambda>k m. k @ m),
      sha256_Sum256 = (\<lambda>m. m),
      sha512_Sum512 = (\<lambda>m. m),
      rsa_SignPKCS1v15 = (\<lambda>k hh d. (Some d, None)),
      rsa_VerifyPKCS1v15 =
        (\<lambda>k hh d sg. if sg = d then None else Some (Errorf ''crypto/rsa: verification error'')),
      rsa_SignPSS = (\<lambda>rnd k hh d. (Some d, None)),
      rsa_VerifyPSS =
        (\<lambda>k hh d sg. if sg = d then None else Some (Errorf ''crypto/rsa: verification error'')),
      ecdsa_Sign = (\<lambda>rnd k d. ((258, 3), None)),
      ecdsa_Verify = (\<lambda>k d r s. r = 258 \<and> s = 3)\<rparr>"

definition empty_heap :: heap where
  "empty_heap = \<lparr>signConfigs = [], verifyConfigs = []\<rparr>"

definition toy_rsa_key :: rsa_PrivateKey where
  "toy_rsa_key = rsa_PrivateKey (rsa_PublicKey 3233 17) 413"

definition toy_ecdsa_key :: ecdsa_PrivateKey where
  "toy_ecdsa_key = ecdsa_PrivateKey (ecdsa_PublicKey 1 2) 3"


section \<open>Default configurations\<close>

text \<open>
  C7. \<open>NewSignConfig\<close> returns a non-nil pointer to a configuration with
  \<open>signAlg = true\<close>, \<open>signCreated = true\<close>, \<open>fakeCreated = 0\<close>, \<open>expires = 0\<close>,
  \<open>nonce = ""\<close> and no \<open>requestResponse\<close>.
\<close>

theorem NewSignConfig_default:
  "fst (NewSignConfig h) \<noteq> None \<and>
   getSignConfig (snd (NewSignConfig h)) (fst (NewSignConfig h)) =
     Some \<lparr>signAlg = True, signCreated = True, fakeCreated = 0, expires = 0,
           nonce = [], SignConfig.requestResponse = None\<rparr>"
  by (simp add: NewSignConfig_def getSignConfig_def)

theorem NewSignConfig_default_witness:
  "getSignConfig (snd (NewSignConfig empty_heap)) (Some 0) =
     Some \<lparr>signAlg = True, signCreated = True, fakeCreated = 0, expires = 0,
           nonce = [], SignConfig.requestResponse = None\<rparr>"
  using NewSignConfig_default [of empty_heap]
  by (simp add: NewSignConfig_def empty_heap_def)

text \<open>
  C3. \<open>NewVerifyConfig\<close> returns a non-nil pointer to a configuration with
  \<open>verifyCreated = true\<close>, \<open>notNewerThan\<close> 2 seconds and \<open>notOlderThan\<close> 10 seconds
  (in nanoseconds), \<open>rejectExpired = true\<close>, an empty \<open>allowedAlgs\<close>,
  \<open>verifyKeyID = true\<close> and \<open>dateWithin = 0\<close>.
\<close>

theorem NewVerifyConfig_default:
  "fst (NewVerifyConfig h) \<noteq> None \<and>
   getVerifyConfig (snd (NewVerifyConfig h)) (fst (NewVerifyConfig h)) =
     Some \<lparr>verifyCreated = True, notNewerThan = 2000000000, notOlderThan = 10000000000,
           allowedAlgs = Some [], rejectExpired = True,
           VerifyConfig.requestResponse = None, verifyKeyID = True, dateWithin = 0\<rparr>"
  by (simp add: NewVerifyConfig_def getVerifyConfig_def Second_def)

theorem NewVerifyConfig_default_witness:
  "getVerifyConfig (snd (NewVerifyConfig empty_heap)) (Some 0) =
     Some \<lparr>verifyCreated = True, notNewerThan = 2 * Second, notOlderThan = 10 * Second,
           allowedAlgs = Some [], rejectExpired = True,
           VerifyConfig.requestResponse = None, verifyKeyID = True, dateWithin = 0\<rparr>"
  using NewVerifyConfig_default [of empty_heap]
  by (simp add: NewVerifyConfig_def empty_heap_def Second_def)

section \<open>Constructors\<close>

text \<open>
  C2. \<open>NewHMACSHA256Signer\<close> returns an error exactly when the key is nil or shorter
  than 64 bytes or the keyID is empty, and then no Signer. Otherwise it returns a
  Signer with algorithm \<open>hmac-sha256\<close>, the given key, keyID and fields, and the given
  configuration pointer; when the configuration is nil the pointer is the one
  \<open>NewSignConfig\<close> allocates, holding the default configuration.
\<close>
theorem NewHMACSHA256Signer_spec:
  "(snd (fst (NewHMACSHA256Signer h kid k cfg fs)) \<noteq> None
      \<longleftrightarrow> (k = None \<or> len k < 64 \<or> kid = [])) \<and>
   (snd (fst (NewHMACSHA256Signer h kid k cfg fs)) \<noteq> None
      \<longrightarrow> fst (fst (NewHMACSHA256Signer h kid k cfg fs)) = None) \<and>
   (\<not> (k = None \<or> len k < 64 \<or> kid = []) \<longrightarrow>
      (\<exists>s h'. NewHMACSHA256Signer h kid k cfg fs = ((Some s, None), h') \<and>
         Signer.alg s = ''hmac-sha256'' \<and>
         Signer.key s = bytes_key k \<and>
         Signer.keyID s = kid \<and>
         fields' s = fs \<and>
         (cfg \<noteq> None \<longrightarrow> config s = cfg \<and> h' = h) \<and>
         (cfg = None \<longrightarrow>
            (config s, h') = NewSignConfig h \<and>
            getSignConfig h' (config s) =
              Some \<lparr>signAlg = True, signCreated = True, fakeCreated = 0, expires = 0,
                    nonce = [], SignConfig.requestResponse = None\<rparr>)))"
  by (auto simp add: NewHMACSHA256Signer_def NewSignConfig_def getSignConfig_def)

theorem NewHMACSHA256Signer_spec_witness:
  "NewHMACSHA256Signer empty_heap ''key1'' (Some (replicate 64 1)) None [''@method''] =
     ((Some \<lparr>Signer.keyID = ''key1'', Signer.key = bytes_key (Some (replicate 64 1)),
              Signer.alg = ''hmac-sha256'', config = Some 0, fields' = [''@method'']\<rparr>, None),
      \<lparr>signConfigs =
         [\<lparr>signAlg = True, signCreated = True, fakeCreated = 0, expires = 0,
           nonce = [], SignConfig.requestResponse = None\<rparr>],
       verifyConfigs = []\<rparr>) \<and>
   snd (fst (NewHMACSHA256Signer empty_heap ''key1'' (Some (replicate 63 1)) None [''@method'']))
     \<noteq> None \<and>
   snd (fst (NewHMACSHA256Signer empty_heap [] (Some (replicate 64 1)) None [''@method'']))
     \<noteq> None \<and>
   snd (fst (NewHMACSHA256Signer empty_heap ''key1'' None None [''@method''])) \<noteq> None"
  using NewHMACSHA256Signer_spec [of empty_heap "''key1''" "Some (replicate 64 1)" None "[''@method'']"]
    NewHMACSHA256Signer_spec [of empty_heap "''key1''" None None "[''@method'']"]
    NewHMACSHA256Signer_spec [of empty_heap "''key1''" "Some (replicate 63 1)" None "[''@method'']"]
    NewHMACSHA256Signer_spec [of empty_heap "[]" "Some (replicate 64 1)" None "[''@method'']"]
  by (simp add: NewHMACSHA256Signer_def NewSignConfig_def empty_heap_def len_def elems_def)

text \<open>
  C9. No Verifier constructor looks at the keyID: with the empty keyID and a non-nil key
  (of at least 64 bytes for HMAC) each of the four returns a Verifier and a nil error.
\<close>

theorem verifier_constructors_accept_empty_keyID:
  "(kb \<noteq> None \<and> 64 \<le> len kb \<longrightarrow>
      (\<exists>v h'. NewHMACSHA256Verifier h [] kb cfg fs1 = ((Some v, None), h')
           \<and> Verifier.keyID v = [])) \<and>
   (kr \<noteq> None \<longrightarrow>
      (\<exists>v h'. NewRSAVerifier h [] kr cfg fs2 = ((Some v, None), h')
           \<and> Verifier.keyID v = [])) \<and>
   (kr \<noteq> None \<longrightarrow>
      (\<exists>v h'. NewRSAPSSVerifier h [] kr cfg fs3 = ((Some v, None), h')
           \<and> Verifier.keyID v = [])) \<and>
   (ke \<noteq> None \<longrightarrow>
      (\<exists>v h'. NewP256Verifier h [] ke cfg fs4 = ((Some v, None), h')
           \<and> Verifier.keyID v = []))"
  by (simp add: NewHMACSHA256Verifier_def NewRSAVerifier_def NewRSAPSSVerifier_def
        NewP256Verifier_def split: prod.splits)

theorem verifier_constructors_accept_empty_keyID_witness:
  "NewHMACSHA256Verifier empty_heap [] (Some (replicate 64 1)) (Some 0) [''@method''] =
     ((Some \<lparr>keyID = [], key = bytes_key (Some (replicate 64 1)),
              alg = ''hmac-sha256'', c = Some 0, f = [''@method'']\<rparr>, None), empty_heap) \<and>
   NewRSAVerifier empty_heap [] (Some (rsa_PublicKey 3233 17)) (Some 0) [''@method''] =
     ((Some \<lparr>keyID = [], key = rsa_public (Some (rsa_PublicKey 3233 17)),
              alg = ''rsa-v1_5-sha256'', c = Some 0, f = [''@method'']\<rparr>, None), empty_heap) \<and>
   NewRSAPSSVerifier empty_heap [] (Some (rsa_PublicKey 3233 17)) (Some 0) [''@method''] =
     ((Some \<lparr>keyID = [], key = rsa_public (Some (rsa_PublicKey 3233 17)),
              alg = ''rsa-pss-sha512'', c = Some 0, f = [''@method'']\<rparr>, None), empty_heap) \<and>
   NewP256Verifier empty_heap [] (Some (ecdsa_PublicKey 1 2)) (Some 0) [''@method''] =
     ((Some \<lparr>keyID = [], key = ecdsa_public (Some (ecdsa_PublicKey 1 2)),
              alg = ''ecdsa-p256-sha256'', c = Some 0, f = [''@method'']\<rparr>, None), empty_heap)"
  using verifier_constructors_accept_empty_keyID
    [of "Some (replicate 64 1)" empty_heap "Some 0" "[''@method'']"
        "Some (rsa_PublicKey 3233 17)" "[''@method'']" "[''@method'']"
        "Some (ecdsa_PublicKey 1 2)" "[''@method'']"]
  by (simp add: NewHMACSHA256Verifier_def NewRSAVerifier_def NewRSAPSSVerifier_def
        NewP256Verifier_def len_def elems_def)

section \<open>Algorithms\<close>

lemma sign_unknown:
  "Signer.alg s \<notin> {''hmac-sha256'', ''rsa-v1_5-sha256'', ''rsa-pss-sha512'', ''ecdsa-p256-sha256''}
   \<Longrightarrow> sign P rnd h s buff =
         Return ((None, Some (Errorf (''sign: unknown algorithm '' @ [CHR 0x22] @ Signer.alg s
                                        @ [CHR 0x22]))), s, h)"
  by (simp add: sign_def)

lemma verify_unknown:
  "Verifier.alg v \<notin> {''hmac-sha256'', ''rsa-v1_5-sha256'', ''rsa-pss-sha512'', ''ecdsa-p256-sha256''}
   \<Longrightarrow> verify P h v buff sg =
         Return ((False, Some (Errorf (''verify: unknown algorithm '' @ [CHR 0x22]
                                         @ Verifier.alg v @ [CHR 0x22]))), v, h)"
  by (simp add: verify_def)

lemma signer_constructor_algs:
  "NewHMACSHA256Signer h kid kb cfg fs1 = ((Some s1, e1), h1) \<Longrightarrow> Signer.alg s1 = ''hmac-sha256''"
  "NewRSASigner h kid kr cfg fs2 = ((Some s2, e2), h2) \<Longrightarrow> Signer.alg s2 = ''rsa-v1_5-sha256''"
  "NewRSAPSSSigner h kid kr cfg fs3 = ((Some s3, e3), h3) \<Longrightarrow> Signer.alg s3 = ''rsa-pss-sha512''"
  "NewP256Signer h kid ke cfg fs4 = ((Some s4, e4), h4) \<Longrightarrow> Signer.alg s4 = ''ecdsa-p256-sha256''"
  by (auto simp add: NewHMACSHA256Signer_def NewRSASigner_def NewRSAPSSSigner_def
        NewP256Signer_def split: if_splits prod.splits)

text \<open>
  C5. A Signer returned by one of the four constructors has the algorithm
  \<open>hmac-sha256\<close>, \<open>rsa-v1_5-sha256\<close>, \<open>rsa-pss-sha512\<close>, \<open>ecdsa-p256-sha256\<close>
  respectively; with any other algorithm string \<open>sign\<close> returns nil and the error
  \<open>sign: unknown algorithm "..."\<close>, and \<open>verify\<close> returns false and the error
  \<open>verify: unknown algorithm "..."\<close>.
\<close>

theorem algorithm_identifiers:
  "(NewHMACSHA256Signer h kid kb cfg fs1 = ((Some s1, e1), h1)
      \<longrightarrow> Signer.alg s1 = ''hmac-sha256'') \<and>
   (NewRSASigner h kid kr cfg fs2 = ((Some s2, e2), h2)
      \<longrightarrow> Signer.alg s2 = ''rsa-v1_5-sha256'') \<and>
   (NewRSAPSSSigner h kid kr cfg fs3 = ((Some s3, e3), h3)
      \<longrightarrow> Signer.alg s3 = ''rsa-pss-sha512'') \<and>
   (NewP256Signer h kid ke cfg fs4 = ((Some s4, e4), h4)
      \<longrightarrow> Signer.alg s4 = ''ecdsa-p256-sha256'') \<and>
   (Signer.alg s \<notin> {''hmac-sha256'', ''rsa-v1_5-sha256'', ''rsa-pss-sha512'',
                     ''ecdsa-p256-sha256''}
      \<longrightarrow> sign P rnd h s buff =
            Return ((None, Some (Errorf (''sign: unknown algorithm '' @ [CHR 0x22]
                                           @ Signer.alg s @ [CHR 0x22]))), s, h)) \<and>
   (Verifier.alg v \<notin> {''hmac-sha256'', ''rsa-v1_5-sha256'', ''rsa-pss-sha512'',
                       ''ecdsa-p256-sha256''}
      \<longrightarrow> verify P h v buff sg =
            Return ((False, Some (Errorf (''verify: unknown algorithm '' @ [CHR 0x22]
                                            @ Verifier.alg v @ [CHR 0x22]))), v, h))"
proof (intro conjI impI)
  assume "NewHMACSHA256Signer h kid kb cfg fs1 = ((Some s1, e1), h1)"
  then show "Signer.alg s1 = ''hmac-sha256''" by (rule signer_constructor_algs(1))
next
  assume "NewRSASigner h kid kr cfg fs2 = ((Some s2, e2), h2)"
  then show "Signer.alg s2 = ''rsa-v1_5-sha256''" by (rule signer_constructor_algs(2))
next
  assume "NewRSAPSSSigner h kid kr cfg fs3 = ((Some s3, e3), h3)"
  then show "Signer.alg s3 = ''rsa-pss-sha512''" by (rule signer_constructor_algs(3))
next
  assume "NewP256Signer h kid ke cfg fs4 = ((Some s4, e4), h4)"
  then show "Signer.alg s4 = ''ecdsa-p256-sha256''" by (rule signer_constructor_algs(4))
next
  assume "Signer.alg s \<notin> {''hmac-sha256'', ''rsa-v1_5-sha256'', ''rsa-pss-sha512'',
                     ''ecdsa-p256-sha256''}"
  then show "sign P rnd h s buff =
            Return ((None, Some (Errorf (''sign: unknown algorithm '' @ [CHR 0x22]
                                           @ Signer.alg s @ [CHR 0x22]))), s, h)"
    by (rule sign_unknown)
next
  assume "Verifier.alg v \<notin> {''hmac-sha256'', ''rsa-v1_5-sha256'', ''rsa-pss-sha512'',
                       ''ecdsa-p256-sha256''}"
  then show "verify P h v buff sg =
            Return ((False, Some (Errorf (''verify: unknown algorithm '' @ [CHR 0x22]
                                            @ Verifier.alg v @ [CHR 0x22]))), v, h)"
    by (rule verify_unknown)
qed


theorem algorithm_identifiers_witness:
  "NewHMACSHA256Signer empty_heap ''key1'' (Some (replicate 64 1)) (Some 0) [''@method''] =
     ((Some \<lparr>Signer.keyID = ''key1'', Signer.key = bytes_key (Some (replicate 64 1)),
              Signer.alg = ''hmac-sha256'', config = Some 0, fields' = [''@method'']\<rparr>,
       None), empty_heap) \<and>
   NewRSASigner empty_heap ''key1'' (Some toy_rsa_key) (Some 0) [''@method''] =
     ((Some \<lparr>Signer.keyID = ''key1'', Signer.key = rsa_private (Some toy_rsa_key),
              Signer.alg = ''rsa-v1_5-sha256'', config = Some 0, fields' = [''@method'']\<rparr>,
       None), empty_heap) \<and>
   NewRSAPSSSigner empty_heap ''key1'' (Some toy_rsa_key) (Some 0) [''@method''] =
     ((Some \<lparr>Signer.keyID = ''key1'', Signer.key = rsa_private (Some toy_rsa_key),
              Signer.alg = ''rsa-pss-sha512'', config = Some 0, fields' = [''@method'']\<rparr>,
       None), empty_heap) \<and>
   NewP256Signer empty_heap ''key1'' (Some toy_ecdsa_key) (Some 0) [''@method''] =
     ((Some \<lparr>Signer.keyID = ''key1'', Signer.key = ecdsa_private (Some toy_ecdsa_key),
              Signer.alg = ''ecdsa-p256-sha256'', config = Some 0, fields' = [''@method'']\<rparr>,
       None), empty_heap) \<and>
   sign toy_crypto [] empty_heap
     \<lparr>Signer.keyID = ''key1'', Signer.key = nil_key, Signer.alg = ''ed25519'',
      config = None, fields' = ()\<rparr> (Some [1, 2]) =
     Return ((None, Some (Errorf (''sign: unknown algorithm '' @ [CHR 0x22] @ ''ed25519''
                                    @ [CHR 0x22]))),
             \<lparr>Signer.keyID = ''key1'', Signer.key = nil_key, Signer.alg = ''ed25519'',
              config = None, fields' = ()\<rparr>, empty_heap) \<and>
   verify toy_crypto empty_heap
     \<lparr>keyID = ''key1'', key = nil_key, alg = ''ed25519'', c = None, f = ()\<rparr>
     (Some [1, 2]) (Some [3]) =
     Return ((False, Some (Errorf (''verify: unknown algorithm '' @ [CHR 0x22] @ ''ed25519''
                                     @ [CHR 0x22]))),
             \<lparr>keyID = ''key1'', key = nil_key, alg = ''ed25519'', c = None, f = ()\<rparr>,
             empty_heap)"
  using algorithm_identifiers
    [of empty_heap "''key1''" "Some (replicate 64 1)" "Some 0" "[''@method'']"
        "\<lparr>Signer.keyID = ''key1'', Signer.key = bytes_key (Some (replicate 64 1)),
          Signer.alg = ''hmac-sha256'', config = Some 0, fields' = [''@method'']\<rparr>"
        None empty_heap
        "Some toy_rsa_key" "[''@method'']"
        "\<lparr>Signer.keyID = ''key1'', Signer.key = rsa_private (Some toy_rsa_key),
          Signer.alg = ''rsa-v1_5-sha256'', config = Some 0, fields' = [''@method'']\<rparr>"
        None empty_heap
        "[''@method'']"
        "\<lparr>Signer.keyID = ''key1'', Signer.key = rsa_private (Some toy_rsa_key),
          Signer.alg = ''rsa-pss-sha512'', config = Some 0, fields' = [''@method'']\<rparr>"
        None empty_heap
        "Some toy_ecdsa_key" "[''@method'']"
        "\<lparr>Signer.keyID = ''key1'', Signer.key = ecdsa_private (Some toy_ecdsa_key),
          Signer.alg = ''ecdsa-p256-sha256'', config = Some 0, fields' = [''@method'']\<rparr>"
        None empty_heap
        "\<lparr>Signer.keyID = ''key1'', Signer.key = nil_key, Signer.alg = ''ed25519'',
          config = None, fields' = ()\<rparr>"
        toy_crypto "[]" "Some [1, 2]"
        "\<lparr>keyID = ''key1'', key = nil_key, alg = ''ed25519'', c = None, f = ()\<rparr>"
        "Some [3]"]
  by (simp add: NewHMACSHA256Signer_def NewRSASigner_def NewRSAPSSSigner_def
        NewP256Signer_def len_def elems_def)

section \<open>HMAC-SHA256\<close>

text \<open>
  C1. With algorithm \<open>hmac-sha256\<close> and the same key of at least 64 bytes in the Signer
  and the Verifier, \<open>sign\<close> returns a signature and no error, and \<open>verify\<close> of the
  same bytes and that signature returns \<open>(true, nil)\<close>.
\<close>

theorem hmac_round_trip:
  assumes "Signer.alg s = ''hmac-sha256''" and "Verifier.alg v = ''hmac-sha256''"
    and "Signer.key s = bytes_key k" and "Verifier.key v = bytes_key k"
    and "64 \<le> len k"
  shows "\<exists>sg. sign P rnd h s b = Return ((sg, None), s, h) \<and>
              verify P h v b sg = Return ((True, None), v, h)"
  using assms by (simp add: sign_def verify_def bytes_Equal_def elems_def)

theorem hmac_round_trip_witness:
  "sign toy_crypto [] empty_heap
     \<lparr>Signer.keyID = ''key1'', Signer.key = bytes_key (Some (replicate 64 1)),
      Signer.alg = ''hmac-sha256'', config = None, fields' = [''@method'']\<rparr> (Some [7, 8]) =
     Return ((Some (replicate 64 1 @ [7, 8]), None),
             \<lparr>Signer.keyID = ''key1'', Signer.key = bytes_key (Some (replicate 64 1)),
              Signer.alg = ''hmac-sha256'', config = None, fields' = [''@method'']\<rparr>,
             empty_heap) \<and>
   verify toy_crypto empty_heap
     \<lparr>keyID = ''key1'', key = bytes_key (Some (replicate 64 1)),
      alg = ''hmac-sha256'', c = None, f = [''@method'']\<rparr>
     (Some [7, 8]) (Some (replicate 64 1 @ [7, 8])) =
     Return ((True, None),
             \<lparr>keyID = ''key1'', key = bytes_key (Some (replicate 64 1)),
              alg = ''hmac-sha256'', c = None, f = [''@method'']\<rparr>, empty_heap)"
  using hmac_round_trip
    [of "\<lparr>Signer.keyID = ''key1'', Signer.key = bytes_key (Some (replicate 64 1)),
          Signer.alg = ''hmac-sha256'', config = None, fields' = [''@method'']\<rparr>"
        "\<lparr>keyID = ''key1'', key = bytes_key (Some (replicate 64 1)),
          alg = ''hmac-sha256'', c = None, f = [''@method'']\<rparr>"
        "Some (replicate 64 1)" toy_crypto "[]" empty_heap "Some [7, 8]"]
  by (simp add: sign_def verify_def bytes_Equal_def elems_def len_def toy_crypto_def)

text \<open>
  C4. With algorithm \<open>hmac-sha256\<close>, when the MAC recomputed with the Verifier's key
  differs from the received signature, \<open>verify\<close> returns \<open>(false, nil)\<close>: false and
  no error. In particular this is so for the signature that \<open>sign\<close> produces with a
  key whose MAC of the same bytes differs.
\<close>

theorem hmac_mismatch_false_without_error:
  assumes "Verifier.alg v = ''hmac-sha256''" and "Verifier.key v = bytes_key kv"
  shows "(hmac_sha256 P (elems kv) (elems b) \<noteq> elems sg \<longrightarrow>
            verify P h v b sg = Return ((False, None), v, h)) \<and>
         (Signer.alg s = ''hmac-sha256'' \<and> Signer.key s = bytes_key ks \<and>
          hmac_sha256 P (elems kv) (elems b) \<noteq> hmac_sha256 P (elems ks) (elems b) \<longrightarrow>
            (\<exists>sg'. sign P rnd h s b = Return ((sg', None), s, h) \<and>
                    verify P h v b sg' = Return ((False, None), v, h)))"
  using assms by (simp add: sign_def verify_def bytes_Equal_def elems_def)

theorem hmac_mismatch_false_without_error_witness:
  "sign toy_crypto [] empty_heap
     \<lparr>Signer.keyID = ''key1'', Signer.key = bytes_key (Some (replicate 64 1)),
      Signer.alg = ''hmac-sha256'', config = None, fields' = [''@method'']\<rparr> (Some [7, 8]) =
     Return ((Some (replicate 64 1 @ [7, 8]), None),
             \<lparr>Signer.keyID = ''key1'', Signer.key = bytes_key (Some (replicate 64 1)),
              Signer.alg = ''hmac-sha256'', config = None, fields' = [''@method'']\<rparr>,
             empty_heap) \<and>
   verify toy_crypto empty_heap
     \<lparr>keyID = ''key1'', key = bytes_key (Some (replicate 64 2)),
      alg = ''hmac-sha256'', c = None, f = [''@method'']\<rparr>
     (Some [7, 8]) (Some (replicate 64 1 @ [7, 8])) =
     Return ((False, None),
             \<lparr>keyID = ''key1'', key = bytes_key (Some (replicate 64 2)),
              alg = ''hmac-sha256'', c = None, f = [''@method'']\<rparr>, empty_heap)"
  using hmac_mismatch_false_without_error
    [of "\<lparr>keyID = ''key1'', key = bytes_key (Some (replicate 64 2)),
          alg = ''hmac-sha256'', c = None, f = [''@method'']\<rparr>"
        "Some (replicate 64 2)" toy_crypto "Some [7, 8]" "Some (replicate 64 1 @ [7, 8])"
        empty_heap
        "\<lparr>Signer.keyID = ''key1'', Signer.key = bytes_key (Some (replicate 64 1)),
          Signer.alg = ''hmac-sha256'', config = None, fields' = [''@method'']\<rparr>"
        "Some (replicate 64 1)" "[]"]
  by (simp add: sign_def verify_def bytes_Equal_def elems_def toy_crypto_def)

section \<open>RSA\<close>

lemma rsa_verify_not_false_nil:
  "Verifier.alg v = ''rsa-v1_5-sha256'' \<or> Verifier.alg v = ''rsa-pss-sha512''
   \<Longrightarrow> verify P h v b sg \<noteq> Return ((False, None), v', h')"
  by (auto simp add: verify_def split: key.splits option.splits)

text \<open>
  C10. With algorithm \<open>rsa-v1_5-sha256\<close> or \<open>rsa-pss-sha512\<close>, \<open>verify\<close> never
  returns \<open>(false, nil)\<close>: whenever the library's verification returns an error, a
  plain mismatch included, \<open>verify\<close> returns false together with an error that wraps
  it.
\<close>

theorem rsa_verify_failure_has_error:
  "(Verifier.alg v = ''rsa-v1_5-sha256'' \<or> Verifier.alg v = ''rsa-pss-sha512''
      \<longrightarrow> verify P h v b sg \<noteq> Return ((False, None), v', h')) \<and>
   (Verifier.alg v = ''rsa-v1_5-sha256'' \<and> Verifier.key v = rsa_public (Some k) \<and>
    rsa_VerifyPKCS1v15 P k SHA256 (sha256_Sum256 P (elems b)) (elems sg) = Some err
      \<longrightarrow> verify P h v b sg =
            Return ((False, Some (Wrapf ''RSA verification failed: '' err)), v, h)) \<and>
   (Verifier.alg v = ''rsa-pss-sha512'' \<and> Verifier.key v = rsa_public (Some k) \<and>
    rsa_VerifyPSS P k SHA512 (sha512_Sum512 P (elems b)) (elems sg) = Some err
      \<longrightarrow> verify P h v b sg =
            Return ((False, Some (Wrapf ''RSA-PSS verification failed: '' err)), v, h))"
  using rsa_verify_not_false_nil [of v P h b sg v' h']
  by (simp add: verify_def)

theorem rsa_verify_failure_has_error_witness:
  "verify toy_crypto empty_heap
     \<lparr>keyID = ''key1'', key = rsa_public (Some (rsa_PublicKey 3233 17)),
      alg = ''rsa-v1_5-sha256'', c = None, f = [''@method'']\<rparr>
     (Some [7, 8]) (Some [9]) =
     Return ((False, Some (Wrapf ''RSA verification failed: ''
                             (Errorf ''crypto/rsa: verification error''))),
             \<lparr>keyID = ''key1'', key = rsa_public (Some (rsa_PublicKey 3233 17)),
              alg = ''rsa-v1_5-sha256'', c = None, f = [''@method'']\<rparr>, empty_heap) \<and>
   verify toy_crypto empty_heap
     \<lparr>keyID = ''key1'', key = rsa_public (Some (rsa_PublicKey 3233 17)),
      alg = ''rsa-pss-sha512'', c = None, f = [''@method'']\<rparr>
     (Some [7, 8]) (Some [9]) =
     Return ((False, Some (Wrapf ''RSA-PSS verification failed: ''
                             (Errorf ''crypto/rsa: verification error''))),
             \<lparr>keyID = ''key1'', key = rsa_public (Some (rsa_PublicKey 3233 17)),
              alg = ''rsa-pss-sha512'', c = None, f = [''@method'']\<rparr>, empty_heap)"
  using rsa_verify_failure_has_error
    [of "\<lparr>keyID = ''key1'', key = rsa_public (Some (rsa_PublicKey 3233 17)),
          alg = ''rsa-v1_5-sha256'', c = None, f = [''@method'']\<rparr>"
        toy_crypto empty_heap "Some [7, 8]" "Some [9]"
        "\<lparr>keyID = ''key1'', key = rsa_public (Some (rsa_PublicKey 3233 17)),
          alg = ''rsa-v1_5-sha256'', c = None, f = [''@method'']\<rparr>" empty_heap
        "rsa_PublicKey 3233 17" "Errorf ''crypto/rsa: verification error''"]
    rsa_verify_failure_has_error
    [of "\<lparr>keyID = ''key1'', key = rsa_public (Some (rsa_PublicKey 3233 17)),
          alg = ''rsa-pss-sha512'', c = None, f = [''@method'']\<rparr>"
        toy_crypto empty_heap "Some [7, 8]" "Some [9]"
        "\<lparr>keyID = ''key1'', key = rsa_public (Some (rsa_PublicKey 3233 17)),
          alg = ''rsa-pss-sha512'', c = None, f = [''@method'']\<rparr>" empty_heap
        "rsa_PublicKey 3233 17" "Errorf ''crypto/rsa: verification error''"]
  by (simp add: toy_crypto_def elems_def)

section \<open>ECDSA P-256\<close>

lemma length_FillBytes: "length (FillBytes n v) = n"
  by (induction n arbitrary: v) simp_all

lemma SetBytes_snoc: "SetBytes (bs @ [b]) = SetBytes bs * 256 + unat b"
  by (simp add: SetBytes_def)

lemma unat_byte_of_nat: "unat (of_nat (v mod 256) :: byte) = v mod 256"
  by (simp add: unat_of_nat)

lemma SetBytes_FillBytes: "v < 256 ^ n \<Longrightarrow> SetBytes (FillBytes n v) = v"
proof (induction n arbitrary: v)
  case 0
  then show ?case by (simp add: SetBytes_def)
next
  case (Suc n)
  from Suc.prems have "v div 256 < 256 ^ n"
    by (simp add: less_mult_imp_div_less mult.commute)
  then have "SetBytes (FillBytes n (v div 256)) = v div 256" by (rule Suc.IH)
  then show ?case by (simp add: SetBytes_snoc unat_byte_of_nat)
qed

lemma byte_of_nat_mod: "(of_nat (v mod 256) :: byte) = of_nat v"
proof -
  have "unat (of_nat (v mod 256) :: byte) = unat (of_nat v :: byte)"
    by (simp add: unat_of_nat)
  then show ?thesis by (simp only: word_unat_eq_iff)
qed

lemma FillBytes_nth:
  "i < n \<Longrightarrow> FillBytes n v ! i = of_nat (v div 256 ^ (n - 1 - i))"
proof (induction n arbitrary: v)
  case 0
  then show ?case by simp
next
  case (Suc n)
  show ?case
  proof (cases "i < n")
    case True
    then have "FillBytes (Suc n) v ! i = FillBytes n (v div 256) ! i"
      by (simp add: nth_append length_FillBytes)
    also have "\<dots> = of_nat (v div 256 div 256 ^ (n - 1 - i))"
      using True by (rule Suc.IH)
    also have "v div 256 div 256 ^ (n - 1 - i) = v div 256 ^ (Suc n - 1 - i)"
    proof -
      from True have "Suc n - 1 - i = Suc (n - 1 - i)" by simp
      then show ?thesis by (simp add: div_mult2_eq)
    qed
    finally show ?thesis .
  next
    case False
    with Suc.prems have "i = n" by simp
    then show ?thesis by (simp add: nth_append length_FillBytes byte_of_nat_mod)
  qed
qed

lemma unat_256_bound: "unat (r :: 256 word) < 256 ^ 32"
proof -
  have "unat r < 2 ^ LENGTH(256)" by (rule unsigned_less)
  then show ?thesis by simp
qed

lemma decode_encode_scalar: "of_nat (SetBytes (FillBytes 32 (unat r))) = (r :: 256 word)"
  by (simp only: SetBytes_FillBytes [OF unat_256_bound] of_nat_unat ucast_id)

text \<open>
  C8. With algorithm \<open>ecdsa-p256-sha256\<close>, when the primitive returns the pair
  \<open>(r, t)\<close>, \<open>sign\<close> returns 64 bytes: the first 32 are \<open>r\<close> and the last 32 are
  \<open>t\<close>, each big-endian and zero-padded (byte \<open>i\<close> of a half is the scalar divided
  by \<open>256 ^ (31 - i)\<close>, as a byte). \<open>verify\<close>, given these 64 bytes, calls the
  primitive with the same \<open>r\<close> and \<open>t\<close>. No other encoding is involved.
\<close>

theorem ecdsa_signature_is_raw_r_s:
  "(Signer.alg s = ''ecdsa-p256-sha256'' \<and> Signer.key s = ecdsa_private (Some k) \<and>
    ecdsa_Sign P rnd k (sha256_Sum256 P (elems b)) = ((r, t), None) \<longrightarrow>
      (\<exists>sg. sign P rnd h s b = Return ((Some sg, None), s, h) \<and>
            length sg = 64 \<and>
            take 32 sg = FillBytes 32 (unat r) \<and>
            drop 32 sg = FillBytes 32 (unat t) \<and>
            (\<forall>i<32. sg ! i = of_nat (unat r div 256 ^ (31 - i)) \<and>
                     sg ! (32 + i) = of_nat (unat t div 256 ^ (31 - i))))) \<and>
   (Verifier.alg v = ''ecdsa-p256-sha256'' \<and> Verifier.key v = ecdsa_public (Some q) \<longrightarrow>
      verify P h v b (Some (FillBytes 32 (unat r) @ FillBytes 32 (unat t))) =
        Return ((ecdsa_Verify P q (sha256_Sum256 P (elems b)) r t, None), v, h))"
proof (intro conjI impI)
  assume a: "Signer.alg s = ''ecdsa-p256-sha256'' \<and> Signer.key s = ecdsa_private (Some k) \<and>
    ecdsa_Sign P rnd k (sha256_Sum256 P (elems b)) = ((r, t), None)"
  let ?sg = "FillBytes 32 (unat r) @ FillBytes 32 (unat t)"
  from a have "sign P rnd h s b = Return ((Some ?sg, None), s, h)"
    by (simp add: sign_def ecdsaSignRaw_def)
  moreover have "length ?sg = 64" by (simp add: length_FillBytes)
  moreover have "take 32 ?sg = FillBytes 32 (unat r)" by (simp add: length_FillBytes)
  moreover have "drop 32 ?sg = FillBytes 32 (unat t)" by (simp add: length_FillBytes)
  moreover have "\<forall>i<32. ?sg ! i = of_nat (unat r div 256 ^ (31 - i)) \<and>
                     ?sg ! (32 + i) = of_nat (unat t div 256 ^ (31 - i))"
    by (simp add: nth_append length_FillBytes FillBytes_nth)
  ultimately show "\<exists>sg. sign P rnd h s b = Return ((Some sg, None), s, h) \<and>
            length sg = 64 \<and>
            take 32 sg = FillBytes 32 (unat r) \<and>
            drop 32 sg = FillBytes 32 (unat t) \<and>
            (\<forall>i<32. sg ! i = of_nat (unat r div 256 ^ (31 - i)) \<and>
                     sg ! (32 + i) = of_nat (unat t div 256 ^ (31 - i)))"
    by blast
next
  assume a: "Verifier.alg v = ''ecdsa-p256-sha256'' \<and> Verifier.key v = ecdsa_public (Some q)"
  then show "verify P h v b (Some (FillBytes 32 (unat r) @ FillBytes 32 (unat t))) =
        Return ((ecdsa_Verify P q (sha256_Sum256 P (elems b)) r t, None), v, h)"
    by (simp add: verify_def ecdsaVerifyRaw_def len_def elems_def length_FillBytes
          decode_encode_scalar)
qed

theorem ecdsa_signature_is_raw_r_s_witness:
  "sign toy_crypto [] empty_heap
     \<lparr>Signer.keyID = ''key1'', Signer.key = ecdsa_private (Some toy_ecdsa_key),
      Signer.alg = ''ecdsa-p256-sha256'', config = None, fields' = [''@method'']\<rparr>
     (Some [7, 8]) =
     Return ((Some (replicate 30 0 @ [1, 2] @ replicate 31 0 @ [3]), None),
             \<lparr>Signer.keyID = ''key1'', Signer.key = ecdsa_private (Some toy_ecdsa_key),
              Signer.alg = ''ecdsa-p256-sha256'', config = None, fields' = [''@method'']\<rparr>,
             empty_heap) \<and>
   verify toy_crypto empty_heap
     \<lparr>keyID = ''key1'', key = ecdsa_public (Some (ecdsa_PublicKey 1 2)),
      alg = ''ecdsa-p256-sha256'', c = None, f = [''@method'']\<rparr>
     (Some [7, 8]) (Some (replicate 30 0 @ [1, 2] @ replicate 31 0 @ [3])) =
     Return ((True, None),
             \<lparr>keyID = ''key1'', key = ecdsa_public (Some (ecdsa_PublicKey 1 2)),
              alg = ''ecdsa-p256-sha256'', c = None, f = [''@method'']\<rparr>, empty_heap)"
proof -
  let ?S = "\<lparr>Signer.keyID = ''key1'', Signer.key = ecdsa_private (Some toy_ecdsa_key),
             Signer.alg = ''ecdsa-p256-sha256'', config = None, fields' = [''@method'']\<rparr>"
  let ?V = "\<lparr>keyID = ''key1'', key = ecdsa_public (Some (ecdsa_PublicKey 1 2)),
             alg = ''ecdsa-p256-sha256'', c = None, f = [''@method'']\<rparr>"
  have e1: "FillBytes 32 (unat (258 :: 256 word)) = replicate 30 0 @ [1, 2]" by code_simp
  have e2: "FillBytes 32 (unat (3 :: 256 word)) = replicate 31 0 @ [3]" by code_simp
  have n1: "FillBytes 32 258 = replicate 30 0 @ [1, 2]" by code_simp
  have n2: "FillBytes 32 3 = replicate 31 0 @ [3]" by code_simp
  note T = ecdsa_signature_is_raw_r_s
      [of ?S toy_ecdsa_key toy_crypto "[]" "Some [7, 8]" 258 3 empty_heap ?V
          "ecdsa_PublicKey 1 2"]
  have hs: "Signer.alg ?S = ''ecdsa-p256-sha256'' \<and>
            Signer.key ?S = ecdsa_private (Some toy_ecdsa_key) \<and>
            ecdsa_Sign toy_crypto [] toy_ecdsa_key (sha256_Sum256 toy_crypto (elems (Some [7, 8])))
              = ((258, 3), None)"
    by (simp add: toy_crypto_def)
  have hv: "Verifier.alg ?V = ''ecdsa-p256-sha256'' \<and>
            Verifier.key ?V = ecdsa_public (Some (ecdsa_PublicKey 1 2))"
    by simp
  from T hs obtain sg where
    sg: "sign toy_crypto [] empty_heap ?S (Some [7, 8]) = Return ((Some sg, None), ?S, empty_heap)"
    and tk: "take 32 sg = FillBytes 32 (unat (258 :: 256 word))"
    and dr: "drop 32 sg = FillBytes 32 (unat (3 :: 256 word))"
    by blast
  have "sg = take 32 sg @ drop 32 sg" by simp
  with tk dr have "sg = replicate 30 0 @ [1, 2] @ replicate 31 0 @ [3]"
    by (simp only: e1 e2 append_assoc)
  with sg have 1: "sign toy_crypto [] empty_heap ?S (Some [7, 8]) =
      Return ((Some (replicate 30 0 @ [1, 2] @ replicate 31 0 @ [3]), None), ?S, empty_heap)"
    by simp
  from T hv have "verify toy_crypto empty_heap ?V (Some [7, 8])
      (Some (FillBytes 32 (unat (258 :: 256 word)) @ FillBytes 32 (unat (3 :: 256 word)))) =
      Return ((ecdsa_Verify toy_crypto (ecdsa_PublicKey 1 2)
                 (sha256_Sum256 toy_crypto (elems (Some [7, 8]))) 258 3, None), ?V, empty_heap)"
    by blast
  then have 2: "verify toy_crypto empty_heap ?V (Some [7, 8])
      (Some (replicate 30 0 @ [1, 2] @ replicate 31 0 @ [3])) =
      Return ((True, None), ?V, empty_heap)"
    by (simp add: n1 n2 toy_crypto_def)
  from 1 2 show ?thesis by (rule conjI)
qed

section \<open>What changes a Signer or a Verifier\<close>
















end
